theory Spec2Isabelle
  imports Main
begin

section \<open>Values, errors and the outcome of a conversion step\<close>

text \<open>
  The converters of \<^verbatim>\<open>json-serializer.ts\<close> read and write plain JavaScript values.
  Numbers are modelled by the integers; the conversions of the JavaScript runtime
  that the generated code calls (\<^verbatim>\<open>''+x\<close>, \<^verbatim>\<open>+x\<close>, \<^verbatim>\<open>JSON.parse\<close>) are not code of
  the repository and are taken as a parameter, the record \<open>js_runtime\<close>.
\<close>

datatype jsval =
    JUndefined
  | JNull
  | JBool bool
  | JNum int
  | JStr string
  | JArr "jsval list"
  | JObj "(string \<times> jsval) list"

fun typeof :: "jsval \<Rightarrow> string" where
  "typeof JUndefined = ''undefined''"
| "typeof JNull = ''object''"
| "typeof (JBool b) = ''boolean''"
| "typeof (JNum n) = ''number''"
| "typeof (JStr s) = ''string''"
| "typeof (JArr xs) = ''object''"
| "typeof (JObj kvs) = ''object''"

datatype field_error = FieldError (path: string) (code: string) (message: string)

text \<open>
  \<open>Error msg\<close> is \<^verbatim>\<open>new Error(msg)\<close>. The messages of the runtime's own \<^verbatim>\<open>TypeError\<close> and
  \<^verbatim>\<open>SyntaxError\<close> depend on the engine and are not modelled.
\<close>

datatype error =
    Error string
  | TypeError
  | SyntaxError
  | ValidationFailed "field_error list"

record js_runtime =
  number_to_string :: "int \<Rightarrow> string"
  unary_plus :: "jsval \<Rightarrow> jsval"
  JSON_parse :: "string \<Rightarrow> error + jsval"

text \<open>
  A compiler of the serializer emits code that reads the accessor and may assign the
  setter. Its meaning is a function from the accessor's value to an outcome:
  \<open>Inl e\<close> when the code throws \<open>e\<close>, \<open>Inr None\<close> when it leaves the setter unset,
  \<open>Inr (Some w)\<close> when it assigns \<open>w\<close>.
\<close>

type_synonym outcome = "error + jsval option"

datatype code = Nop | Assign jsval | Throw error

fun exec :: "code \<Rightarrow> outcome" where
  "exec Nop = Inr None"
| "exec (Assign w) = Inr (Some w)"
| "exec (Throw e) = Inl e"

fun join :: "string \<Rightarrow> string list \<Rightarrow> string" where
  "join sep [] = []"
| "join sep [x] = x"
| "join sep (x # y # ys) = x @ sep @ join sep (y # ys)"

section \<open>Property schemas\<close>

text \<open>
  \<open>PropertyCompilerSchema\<close> with the fields the converters read. The result of
  \<^verbatim>\<open>getSortedUnionTypes(property)\<close> (\<^verbatim>\<open>union.ts\<close>, not among the sources) is carried by the
  property as \<open>sortedUnionTypes\<close>: the candidates in the order in which that function
  returns them, each with its guard. \<open>foreignSchema\<close> is what
  \<^verbatim>\<open>getClassSchema(property.resolveClassType)\<close> gives for a property of type \<^verbatim>\<open>class\<close>,
  \<open>enumDefinition\<close> the labels and values of the enum a property of type \<^verbatim>\<open>enum\<close>
  resolves to; properties of other types do not read them.
\<close>

datatype property = Property
  (name: string)
  (type: string)
  (isOptional: bool)
  (isNullable: bool)
  (hasManualDefaultValue: bool)
  (defaultValue: jsval)
  (literalValue: jsval)
  (allowLabelsAsValue: bool)
  (isReference: bool)
  (isId: bool)
  (isAutoIncrement: bool)
  (enumDefinition: "(string \<times> jsval) list")
  (sortedUnionTypes: "union_type list")
  (foreignSchema: classSchema)
and union_type = UnionType
  (property: property)
  (guard: "jsval \<Rightarrow> bool")
and classSchema = ClassSchema
  (schemaName: string)
  (decorator: "string option")
  (properties: "property list")

text \<open>
  The schema builder, as far as the examples use it: \<^verbatim>\<open>t.string\<close>, \<^verbatim>\<open>t.number\<close>,
  \<^verbatim>\<open>t.literal(v)\<close>, \<^verbatim>\<open>t.union(...)\<close>, \<^verbatim>\<open>t.type(Class)\<close>, \<^verbatim>\<open>t.enum(E)\<close>, and the
  modifiers \<^verbatim>\<open>.optional\<close>, \<^verbatim>\<open>.nullable\<close>, \<^verbatim>\<open>.default(v)\<close>, \<^verbatim>\<open>.primary\<close>,
  \<^verbatim>\<open>.autoIncrement\<close>, \<^verbatim>\<open>.reference()\<close>.
\<close>

definition t_property :: "string \<Rightarrow> string \<Rightarrow> property" where
  "t_property n ty =
     Property n ty False False False JUndefined JUndefined False False False False [] []
       (ClassSchema [] None [])"

definition t_string :: "string \<Rightarrow> property" where
  "t_string n = t_property n ''string''"

definition t_number :: "string \<Rightarrow> property" where
  "t_number n = t_property n ''number''"

definition t_literal :: "string \<Rightarrow> jsval \<Rightarrow> property" where
  "t_literal n l =
     Property n ''literal'' False False False JUndefined l False False False False [] []
       (ClassSchema [] None [])"

definition t_union :: "string \<Rightarrow> union_type list \<Rightarrow> property" where
  "t_union n us =
     Property n ''union'' False False False JUndefined JUndefined False False False False [] us
       (ClassSchema [] None [])"

definition t_class :: "string \<Rightarrow> classSchema \<Rightarrow> property" where
  "t_class n cs =
     Property n ''class'' False False False JUndefined JUndefined False False False False [] [] cs"

definition t_enum :: "string \<Rightarrow> (string \<times> jsval) list \<Rightarrow> bool \<Rightarrow> property" where
  "t_enum n e allowLabels =
     Property n ''enum'' False False False JUndefined JUndefined allowLabels False False False e []
       (ClassSchema [] None [])"

fun optional :: "property \<Rightarrow> property" where
  "optional (Property n ty opt nul hdv dv lv al rf idp ai en su fs) =
     Property n ty True nul hdv dv lv al rf idp ai en su fs"

fun nullable :: "property \<Rightarrow> property" where
  "nullable (Property n ty opt nul hdv dv lv al rf idp ai en su fs) =
     Property n ty opt True hdv dv lv al rf idp ai en su fs"

fun with_default :: "jsval \<Rightarrow> property \<Rightarrow> property" where
  "with_default d (Property n ty opt nul hdv dv lv al rf idp ai en su fs) =
     Property n ty opt nul True d lv al rf idp ai en su fs"

fun primary :: "property \<Rightarrow> property" where
  "primary (Property n ty opt nul hdv dv lv al rf idp ai en su fs) =
     Property n ty opt nul hdv dv lv al rf True ai en su fs"

fun autoIncrement :: "property \<Rightarrow> property" where
  "autoIncrement (Property n ty opt nul hdv dv lv al rf idp ai en su fs) =
     Property n ty opt nul hdv dv lv al rf idp True en su fs"

fun rename :: "string \<Rightarrow> property \<Rightarrow> property" where
  "rename n' (Property n ty opt nul hdv dv lv al rf idp ai en su fs) =
     Property n' ty opt nul hdv dv lv al rf idp ai en su fs"

fun reference :: "property \<Rightarrow> property" where
  "reference (Property n ty opt nul hdv dv lv al rf idp ai en su fs) =
     Property n ty opt nul hdv dv lv al True idp ai en su fs"

section \<open>The union compilers\<close>

definition guard_tried_message :: "string list \<Rightarrow> string" where
  "guard_tried_message discriminants =
     ''No valid discriminant was found, so could not determine class type. Guard tried: [''
       @ join '','' discriminants @ ''].''"

text \<open>
  The else branch is built before the loop over the candidates runs, from the list of
  discriminants as it is at that moment.
\<close>

definition union_elseBranch :: "property \<Rightarrow> string list \<Rightarrow> code" where
  "union_elseBranch p discriminants =
     (let elseBranch = Throw (Error (guard_tried_message discriminants)) in
      if isOptional p then Nop
      else if isNullable p then Assign JNull
      else if hasManualDefaultValue p then Assign (defaultValue p)
      else elseBranch)"

text \<open>
  The loop \<^verbatim>\<open>for (const unionType of getSortedUnionTypes(property))\<close>: it appends one
  \<^verbatim>\<open>else if (guard(accessor)) { ... }\<close> arm to the discriminator and the candidate's type
  to the discriminants.
\<close>

fun union_loop ::
  "union_type list \<Rightarrow> union_type list \<times> string list \<Rightarrow> union_type list \<times> string list" where
  "union_loop [] acc = acc"
| "union_loop (u # us) (discriminator, discriminants) =
     union_loop us (discriminator @ [u], discriminants @ [type (property u)])"

text \<open>
  The emitted chain \<^verbatim>\<open>if (false) { } else if (g1(x)) {...} else if (g2(x)) {...} else {...}\<close>.
  \<open>conv\<close> is the meaning of \<^verbatim>\<open>getDataConverterJS\<close> for a candidate's property.
  \<^verbatim>\<open>state.setVariable\<close> (\<^verbatim>\<open>CompilerState\<close>, not among the sources) is taken to return a fresh
  variable bound to the given value, so that every arm calls the guard of its own
  candidate, also when two candidates have the same type.
\<close>

fun run_discriminator ::
  "(property \<Rightarrow> jsval \<Rightarrow> outcome) \<Rightarrow> union_type list \<Rightarrow> code \<Rightarrow> jsval \<Rightarrow> outcome" where
  "run_discriminator conv [] elseBranch v = exec elseBranch"
| "run_discriminator conv (u # us) elseBranch v =
     (if guard u v then conv (property u) v else run_discriminator conv us elseBranch v)"

definition toClass_union :: "(property \<Rightarrow> jsval \<Rightarrow> outcome) \<Rightarrow> property \<Rightarrow> jsval \<Rightarrow> outcome" where
  "toClass_union conv p v =
     (let discriminants = [];
          elseBranch = union_elseBranch p discriminants;
          (discriminator, discriminants') = union_loop (sortedUnionTypes p) ([], discriminants)
      in run_discriminator conv discriminator elseBranch v)"

definition fromClass_union :: "(property \<Rightarrow> jsval \<Rightarrow> outcome) \<Rightarrow> property \<Rightarrow> jsval \<Rightarrow> outcome" where
  "fromClass_union conv p v =
     (let discriminants = [];
          elseBranch = union_elseBranch p discriminants;
          (discriminator, discriminants') = union_loop (sortedUnionTypes p) ([], discriminants)
      in run_discriminator conv discriminator elseBranch v)"

section \<open>The other compilers of the JSON serializer\<close>

text \<open>
  \<open>ToString\<close> is the conversion to a string that \<^verbatim>\<open>'' + x\<close> and the elements of
  \<^verbatim>\<open>Array.prototype.join\<close> go through. An array is joined with commas, with \<^verbatim>\<open>null\<close> and
  \<^verbatim>\<open>undefined\<close> elements giving the empty string; a plain object gives
  \<^verbatim>\<open>[object Object]\<close>.
\<close>

fun ToString :: "js_runtime \<Rightarrow> jsval \<Rightarrow> string" where
  "ToString rt JUndefined = ''undefined''"
| "ToString rt JNull = ''null''"
| "ToString rt (JBool b) = (if b then ''true'' else ''false'')"
| "ToString rt (JNum n) = number_to_string rt n"
| "ToString rt (JStr s) = s"
| "ToString rt (JArr xs) =
     join '','' (map (\<lambda>x. if x = JUndefined \<or> x = JNull then [] else ToString rt x) xs)"
| "ToString rt (JObj kvs) = ''[object Object]''"

definition array_join :: "js_runtime \<Rightarrow> string \<Rightarrow> jsval list \<Rightarrow> string" where
  "array_join rt sep xs =
     join sep (map (\<lambda>x. if x = JUndefined \<or> x = JNull then [] else ToString rt x) xs)"

definition compilerToString :: "js_runtime \<Rightarrow> property \<Rightarrow> jsval \<Rightarrow> outcome" where
  "compilerToString rt p v =
     Inr (Some (if typeof v = ''string'' then v else JStr (ToString rt v)))"

definition compilerToNumber :: "js_runtime \<Rightarrow> property \<Rightarrow> jsval \<Rightarrow> outcome" where
  "compilerToNumber rt p v =
     Inr (Some (if typeof v = ''number'' then v else unary_plus rt v))"

definition toClass_literal :: "property \<Rightarrow> jsval \<Rightarrow> outcome" where
  "toClass_literal p v = Inr (Some (literalValue p))"

definition toClass_prepend_undefined :: "property \<Rightarrow> jsval \<Rightarrow> outcome" where
  "toClass_prepend_undefined p v =
     (if type p = ''literal'' \<and> \<not> isOptional p then Inr (Some (literalValue p)) else Inr None)"

definition toClass_prepend_null :: "property \<Rightarrow> jsval \<Rightarrow> outcome" where
  "toClass_prepend_null p v =
     (if type p = ''literal'' \<and> \<not> isNullable p then Inr (Some (literalValue p)) else Inr None)"

text \<open>
  The boolean compiler: two \<^verbatim>\<open>if\<close> statements in a row in the \<^verbatim>\<open>else\<close> branch; a value
  that is none of the six spellings leaves the setter unset.
\<close>

definition toClass_boolean :: "property \<Rightarrow> jsval \<Rightarrow> outcome" where
  "toClass_boolean p v =
     (if typeof v = ''boolean'' then Inr (Some v)
      else
        (let s1 = (if v = JStr ''true'' \<or> v = JStr ''1'' \<or> v = JNum 1
                   then Some (JBool True) else None);
             s2 = (if v = JStr ''false'' \<or> v = JStr ''0'' \<or> v = JNum 0
                   then Some (JBool False) else s1)
         in Inr s2))"

text \<open>
  Modelled from the spec: the enum helpers \<^verbatim>\<open>isValidEnumValue\<close>, \<^verbatim>\<open>getEnumValues\<close>,
  \<^verbatim>\<open>getEnumLabels\<close> and \<^verbatim>\<open>getValidEnumValue\<close> of \<^verbatim>\<open>@deepkit/core\<close>, which is not among
  the sources. By the spec a value is valid when it is in the set of values of the enum,
  or is one of its labels when labels are permitted; a label then stands for its value.
  An enum definition is the list of its labels with their values.

  \<^verbatim>\<open>getEnumValues\<close> computes the array of values of an enum definition once, keeps it
  and returns that same array on every call; the other helpers read the values through
  it. \<open>enum_cache\<close> is what it has kept: a caller that pushes onto the array it was
  given changes the array of every later call.
\<close>

type_synonym enum_definition = "(string \<times> jsval) list"

type_synonym enum_cache = "enum_definition \<Rightarrow> jsval list option"

definition getEnumValues :: "enum_definition \<Rightarrow> enum_cache \<Rightarrow> jsval list \<times> enum_cache" where
  "getEnumValues e c =
     (case c e of
        Some values \<Rightarrow> (values, c)
      | None \<Rightarrow> (map snd e, c(e \<mapsto> map snd e)))"

definition getEnumLabels :: "enum_definition \<Rightarrow> string list" where
  "getEnumLabels e = map fst e"

definition isValidEnumValue ::
  "enum_definition \<Rightarrow> jsval \<Rightarrow> bool \<Rightarrow> enum_cache \<Rightarrow> bool \<times> enum_cache" where
  "isValidEnumValue e v allowLabels c =
     (if allowLabels \<and> v \<in> set (map JStr (getEnumLabels e)) then (True, c)
      else (let (values, c') = getEnumValues e c in (v \<in> set values, c')))"

definition getValidEnumValue ::
  "enum_definition \<Rightarrow> jsval \<Rightarrow> bool \<Rightarrow> enum_cache \<Rightarrow> jsval \<times> enum_cache" where
  "getValidEnumValue e v allowLabels c =
     (if allowLabels \<and> v \<in> set (map JStr (getEnumLabels e))
      then ((case v of
               JStr s \<Rightarrow> (case map_of e s of None \<Rightarrow> JUndefined | Some w \<Rightarrow> w)
             | _ \<Rightarrow> JUndefined), c)
      else (let (values, c') = getEnumValues e c
            in (if v \<in> set values then v else JUndefined, c')))"

text \<open>
  The enum compiler. In the failing branch \<^verbatim>\<open>valids\<close> is the array that
  \<^verbatim>\<open>getEnumValues(typeValue)\<close> returned, and \<^verbatim>\<open>valids.push(label)\<close> appends every label to
  that very array when labels are allowed as values. \<^verbatim>\<open>isValidEnumValue\<close> is not called
  for \<^verbatim>\<open>undefined\<close>.
\<close>

definition push_labels ::
  "enum_definition \<Rightarrow> jsval list \<Rightarrow> enum_cache \<Rightarrow> jsval list \<times> enum_cache" where
  "push_labels e valids c =
     (let valids' = valids @ map JStr (getEnumLabels e) in (valids', c(e \<mapsto> valids')))"

definition invalid_enum_message :: "js_runtime \<Rightarrow> string \<Rightarrow> jsval \<Rightarrow> jsval list \<Rightarrow> string" where
  "invalid_enum_message rt property_name v valids =
     ''Invalid ENUM given in property '' @ property_name @ '': '' @ ToString rt v
       @ '', valid: '' @ array_join rt '','' valids"

definition toClass_enum ::
  "js_runtime \<Rightarrow> property \<Rightarrow> jsval \<Rightarrow> enum_cache \<Rightarrow> outcome \<times> enum_cache" where
  "toClass_enum rt p v c =
     (let allowLabels = allowLabelsAsValue p;
          typeValue = enumDefinition p;
          (valid, c1) = (if v \<noteq> JUndefined then isValidEnumValue typeValue v allowLabels c
                         else (True, c))
      in if v \<noteq> JUndefined \<and> \<not> valid then
           (let (valids, c2) = getEnumValues typeValue c1;
                (valids', c3) = (if allowLabels then push_labels typeValue valids c2
                                 else (valids, c2))
            in (Inl (Error (invalid_enum_message rt (name p) v valids')), c3))
         else
           (let (w, c2) = getValidEnumValue typeValue v allowLabels c1
            in (Inr (Some w), c2)))"

text \<open>
  The class compilers. \<open>xToClass\<close> and \<open>classToX\<close> are the functions
  \<^verbatim>\<open>xToClass.fn\<close> and \<^verbatim>\<open>classToX.fn\<close> that the JIT (\<^verbatim>\<open>jit.ts\<close>, not among the sources)
  builds for the foreign schema; \<open>parse\<close> is \<^verbatim>\<open>JSON.parse\<close>. A \<^verbatim>\<open>decorator\<close> is truthy
  when it is a non-empty string. Reading \<^verbatim>\<open>.slice\<close> of \<^verbatim>\<open>null\<close> throws a \<^verbatim>\<open>TypeError\<close>; of
  the values modelled here only arrays have a \<^verbatim>\<open>slice\<close> function.
\<close>

definition truthy_decorator :: "classSchema \<Rightarrow> bool" where
  "truthy_decorator cs = (case decorator cs of None \<Rightarrow> False | Some d \<Rightarrow> d \<noteq> [])"

fun has_slice_function :: "jsval \<Rightarrow> bool" where
  "has_slice_function (JArr xs) = True"
| "has_slice_function v = False"

definition assign_result :: "error + jsval \<Rightarrow> outcome" where
  "assign_result r = (case r of Inl e \<Rightarrow> Inl e | Inr w \<Rightarrow> Inr (Some w))"

definition try_assign :: "error + jsval \<Rightarrow> outcome" where
  "try_assign r = (case r of Inl e \<Rightarrow> Inr None | Inr w \<Rightarrow> Inr (Some w))"

definition toClass_class ::
  "(string \<Rightarrow> error + jsval) \<Rightarrow> (jsval \<Rightarrow> error + jsval) \<Rightarrow> property \<Rightarrow> jsval \<Rightarrow> outcome" where
  "toClass_class parse xToClass p v =
     (if truthy_decorator (foreignSchema p) then assign_result (xToClass v)
      else if typeof v = ''object'' \<and> v = JNull then Inl TypeError
      else if typeof v = ''object'' \<and> \<not> has_slice_function v then assign_result (xToClass v)
      else if \<not> isReference p \<and> typeof v = ''string''
        then (case v of
                JStr s \<Rightarrow> try_assign (case parse s of Inl e \<Rightarrow> Inl e | Inr obj \<Rightarrow> xToClass obj)
              | _ \<Rightarrow> Inr None)
      else Inr None)"

definition fromClass_class :: "(jsval \<Rightarrow> error + jsval) \<Rightarrow> property \<Rightarrow> jsval \<Rightarrow> outcome" where
  "fromClass_class classToX p v = assign_result (classToX v)"

section \<open>The entry points\<close>

text \<open>
  \<open>getXToClassFunction\<close> (\<^verbatim>\<open>jit.ts\<close>) and \<open>validate\<close> (\<^verbatim>\<open>validation.ts\<close>) are not among
  the sources; the entry points of \<^verbatim>\<open>json-serializer.ts\<close> take them as parameters.
  Either of them may throw; an exception of \<open>validate\<close> leaves \<open>validatedPlainToClass\<close>
  as it is. \<^verbatim>\<open>errors.length\<close> is truthy when the list is not empty.
\<close>

definition plainToClass ::
  "(classSchema \<Rightarrow> jsval \<Rightarrow> error + jsval) \<Rightarrow> classSchema \<Rightarrow> jsval \<Rightarrow> error + jsval" where
  "plainToClass getXToClassFunction classSchema data = getXToClassFunction classSchema data"

definition validatedPlainToClass ::
  "(classSchema \<Rightarrow> jsval \<Rightarrow> error + field_error list)
     \<Rightarrow> (classSchema \<Rightarrow> jsval \<Rightarrow> error + jsval)
     \<Rightarrow> classSchema \<Rightarrow> jsval \<Rightarrow> error + jsval" where
  "validatedPlainToClass validate getXToClassFunction classSchema data =
     (case validate classSchema data of
        Inl e \<Rightarrow> Inl e
      | Inr errors \<Rightarrow>
          if length errors \<noteq> 0 then Inl (ValidationFailed errors)
          else plainToClass getXToClassFunction classSchema data)"

text \<open>
  \<^verbatim>\<open>cloneClass\<close>: \<^verbatim>\<open>s.deserialize(s.serialize(target, options), options, options?.parents)\<close>
  for the serializer \<open>s\<close> of the target's class.
\<close>

definition cloneClass ::
  "(jsval \<Rightarrow> error + jsval) \<Rightarrow> (jsval \<Rightarrow> error + jsval) \<Rightarrow> jsval \<Rightarrow> error + jsval" where
  "cloneClass serialize deserialize target =
     (case serialize target of Inl e \<Rightarrow> Inl e | Inr plain \<Rightarrow> deserialize plain)"

section \<open>Example schemas\<close>

text \<open>
  Modelled from the spec: the guards of \<^verbatim>\<open>union.ts\<close>, which is not among the sources.
  The spec names the guard of a literal candidate (literal-value equality) and of a
  nested-schema candidate (a shape check): the value is an object that has every
  property of the schema, with a value of the property's type.
\<close>

definition literal_guard :: "jsval \<Rightarrow> jsval \<Rightarrow> bool" where
  "literal_guard l v = (v = l)"

definition shape_guard :: "classSchema \<Rightarrow> jsval \<Rightarrow> bool" where
  "shape_guard cs v =
     (case v of
        JObj kvs \<Rightarrow>
          list_all (\<lambda>q. case map_of kvs (name q) of None \<Rightarrow> False | Some w \<Rightarrow> typeof w = type q)
            (properties cs)
      | _ \<Rightarrow> False)"

definition cand_a :: property where
  "cand_a = t_literal ''kind'' (JStr ''a'')"

definition cand_b :: property where
  "cand_b = t_literal ''kind'' (JStr ''b'')"

definition shape_x :: classSchema where
  "shape_x = ClassSchema ''Shape'' None [t_number ''x'']"

definition cand_shape :: property where
  "cand_shape = t_class ''kind'' shape_x"

definition ab_union :: property where
  "ab_union =
     t_union ''kind''
       [UnionType cand_a (literal_guard (JStr ''a'')),
        UnionType cand_b (literal_guard (JStr ''b''))]"

definition abx_union :: property where
  "abx_union =
     t_union ''kind''
       [UnionType cand_a (literal_guard (JStr ''a'')),
        UnionType cand_b (literal_guard (JStr ''b'')),
        UnionType cand_shape (shape_guard shape_x)]"

definition tags_schema :: classSchema where
  "tags_schema = ClassSchema ''Tags'' (Some ''items'') [t_string ''items'']"

definition tags_field :: property where
  "tags_field = t_class ''tags'' tags_schema"

fun occurs_in :: "string \<Rightarrow> string \<Rightarrow> bool" where
  "occurs_in pat [] = (pat = [])"
| "occurs_in pat (c # cs) = (take (length pat) (c # cs) = pat \<or> occurs_in pat cs)"

section \<open>Properties of the union compilers\<close>

lemma union_loop_eq:
  "union_loop us (d, ds) = (d @ us, ds @ map (\<lambda>u. type (property u)) us)"
  by (induction us arbitrary: d ds) simp_all

lemma toClass_union_run:
  "toClass_union conv p v =
     run_discriminator conv (sortedUnionTypes p) (union_elseBranch p []) v"
  by (simp add: toClass_union_def union_loop_eq)

lemma fromClass_union_run:
  "fromClass_union conv p v =
     run_discriminator conv (sortedUnionTypes p) (union_elseBranch p []) v"
  by (simp add: fromClass_union_def union_loop_eq)

lemma run_discriminator_no_match:
  "\<forall>u \<in> set us. \<not> guard u v \<Longrightarrow> run_discriminator conv us e v = exec e"
  by (induction us) simp_all

lemma run_discriminator_first_match:
  "\<forall>w \<in> set pre. \<not> guard w v \<Longrightarrow> guard u v \<Longrightarrow>
     run_discriminator conv (pre @ u # post) e v = conv (property u) v"
  by (induction pre) simp_all

lemmas example_defs =
  ab_union_def abx_union_def cand_a_def cand_b_def cand_shape_def shape_x_def
  t_union_def t_literal_def t_class_def t_number_def t_string_def t_property_def
  literal_guard_def shape_guard_def tags_schema_def tags_field_def

section \<open>Claims about the union compilers\<close>

text \<open>
  C3: when no guard of a union field matches the input, the fallback is chosen in this
  order, in the decoding and in the encoding direction alike: an optional field is left
  unset; else a nullable field is set to null; else a field with a configured default is
  set to that default; only otherwise does the conversion fail.
\<close>

theorem union_fallback_precedence:
  assumes "\<forall>u \<in> set (sortedUnionTypes p). \<not> guard u v"
  shows "toClass_union conv p v =
           (if isOptional p then Inr None
            else if isNullable p then Inr (Some JNull)
            else if hasManualDefaultValue p then Inr (Some (defaultValue p))
            else Inl (Error (guard_tried_message [])))
         \<and> fromClass_union conv' p v =
           (if isOptional p then Inr None
            else if isNullable p then Inr (Some JNull)
            else if hasManualDefaultValue p then Inr (Some (defaultValue p))
            else Inl (Error (guard_tried_message [])))"
  using assms
  by (simp add: toClass_union_run fromClass_union_run run_discriminator_no_match
      union_elseBranch_def)

theorem union_fallback_precedence_witness:
  "\<forall>conv conv'.
     (toClass_union conv (optional (nullable (with_default (JStr ''a'') ab_union))) (JStr ''z'')
        = Inr None
      \<and> fromClass_union conv' (optional (nullable (with_default (JStr ''a'') ab_union))) (JStr ''z'')
        = Inr None)
   \<and> (toClass_union conv (nullable (with_default (JStr ''a'') ab_union)) (JStr ''z'')
        = Inr (Some JNull)
      \<and> fromClass_union conv' (nullable (with_default (JStr ''a'') ab_union)) (JStr ''z'')
        = Inr (Some JNull))
   \<and> (toClass_union conv (with_default (JStr ''a'') ab_union) (JStr ''z'')
        = Inr (Some (JStr ''a''))
      \<and> fromClass_union conv' (with_default (JStr ''a'') ab_union) (JStr ''z'')
        = Inr (Some (JStr ''a'')))
   \<and> (toClass_union conv ab_union (JStr ''z'') = Inl (Error (guard_tried_message []))
      \<and> fromClass_union conv' ab_union (JStr ''z'') = Inl (Error (guard_tried_message [])))"
proof (intro allI conjI)
  fix conv conv' :: "property \<Rightarrow> jsval \<Rightarrow> outcome"
  let ?z = "JStr ''z''"
  have n1: "\<forall>u \<in> set (sortedUnionTypes (optional (nullable (with_default (JStr ''a'') ab_union)))).
              \<not> guard u ?z"
    by (simp add: example_defs)
  have n2: "\<forall>u \<in> set (sortedUnionTypes (nullable (with_default (JStr ''a'') ab_union))).
              \<not> guard u ?z"
    by (simp add: example_defs)
  have n3: "\<forall>u \<in> set (sortedUnionTypes (with_default (JStr ''a'') ab_union)). \<not> guard u ?z"
    by (simp add: example_defs)
  have n4: "\<forall>u \<in> set (sortedUnionTypes ab_union). \<not> guard u ?z"
    by (simp add: example_defs)
  note r1 = union_fallback_precedence [OF n1, of conv conv']
  note r2 = union_fallback_precedence [OF n2, of conv conv']
  note r3 = union_fallback_precedence [OF n3, of conv conv']
  note r4 = union_fallback_precedence [OF n4, of conv conv']
  show "toClass_union conv (optional (nullable (with_default (JStr ''a'') ab_union))) ?z = Inr None"
    using r1 by (simp add: example_defs)
  show "fromClass_union conv' (optional (nullable (with_default (JStr ''a'') ab_union))) ?z = Inr None"
    using r1 by (simp add: example_defs)
  show "toClass_union conv (nullable (with_default (JStr ''a'') ab_union)) ?z = Inr (Some JNull)"
    using r2 by (simp add: example_defs)
  show "fromClass_union conv' (nullable (with_default (JStr ''a'') ab_union)) ?z = Inr (Some JNull)"
    using r2 by (simp add: example_defs)
  show "toClass_union conv (with_default (JStr ''a'') ab_union) ?z = Inr (Some (JStr ''a''))"
    using r3 by (simp add: example_defs)
  show "fromClass_union conv' (with_default (JStr ''a'') ab_union) ?z = Inr (Some (JStr ''a''))"
    using r3 by (simp add: example_defs)
  show "toClass_union conv ab_union ?z = Inl (Error (guard_tried_message []))"
    using r4 by (simp add: example_defs)
  show "fromClass_union conv' ab_union ?z = Inl (Error (guard_tried_message []))"
    using r4 by (simp add: example_defs)
qed

text \<open>
  C2: the guards of a union field are evaluated in the order of the sorted candidates;
  the first guard that holds for the input selects its candidate's conversion step, and
  no later candidate is considered. The order is the one \<^verbatim>\<open>getSortedUnionTypes\<close> returns.
\<close>

theorem union_first_match:
  assumes "sortedUnionTypes p = pre @ u # post"
    and "\<forall>w \<in> set pre. \<not> guard w v"
    and "guard u v"
  shows "toClass_union conv p v = conv (property u) v
         \<and> fromClass_union conv' p v = conv' (property u) v"
  using assms
  by (simp add: toClass_union_run fromClass_union_run run_discriminator_first_match)

text \<open>
  The example of the spec: with the candidates literal \<open>a\<close>, literal \<open>b\<close> and the shape
  \<open>{x: number}\<close>, the input \<open>"a"\<close> is converted by the first candidate and the input
  \<open>{x: 5}\<close> by the third, whatever the conversion steps are.
\<close>

theorem union_first_match_witness:
  "\<forall>conv conv'.
     (toClass_union conv abx_union (JStr ''a'') = conv cand_a (JStr ''a'')
      \<and> fromClass_union conv' abx_union (JStr ''a'') = conv' cand_a (JStr ''a''))
   \<and> (toClass_union conv abx_union (JObj [(''x'', JNum 5)]) = conv cand_shape (JObj [(''x'', JNum 5)])
      \<and> fromClass_union conv' abx_union (JObj [(''x'', JNum 5)])
          = conv' cand_shape (JObj [(''x'', JNum 5)]))"
proof (intro allI)
  fix conv conv' :: "property \<Rightarrow> jsval \<Rightarrow> outcome"
  let ?ua = "UnionType cand_a (literal_guard (JStr ''a''))"
  let ?ub = "UnionType cand_b (literal_guard (JStr ''b''))"
  let ?ux = "UnionType cand_shape (shape_guard shape_x)"
  let ?obj = "JObj [(''x'', JNum 5)]"
  have a1: "sortedUnionTypes abx_union = [] @ ?ua # [?ub, ?ux]"
    by (simp add: abx_union_def t_union_def)
  have a2: "\<forall>w \<in> set []. \<not> guard w (JStr ''a'')"
    by simp
  have a3: "guard ?ua (JStr ''a'')"
    by (simp add: literal_guard_def)
  have x1: "sortedUnionTypes abx_union = [?ua, ?ub] @ ?ux # []"
    by (simp add: abx_union_def t_union_def)
  have x2: "\<forall>w \<in> set [?ua, ?ub]. \<not> guard w ?obj"
    by (simp add: literal_guard_def)
  have x3: "guard ?ux ?obj"
    by (simp add: shape_guard_def shape_x_def t_number_def t_property_def)
  show "(toClass_union conv abx_union (JStr ''a'') = conv cand_a (JStr ''a'')
      \<and> fromClass_union conv' abx_union (JStr ''a'') = conv' cand_a (JStr ''a''))
   \<and> (toClass_union conv abx_union ?obj = conv cand_shape ?obj
      \<and> fromClass_union conv' abx_union ?obj = conv' cand_shape ?obj)"
    using union_first_match [OF a1 a2 a3, of conv conv']
      union_first_match [OF x1 x2 x3, of conv conv']
    by simp
qed

text \<open>
  C1, as the code has it: when no guard of a union field matches and the field is not
  optional, not nullable and has no default, the conversion fails, in both directions,
  with an error whose message says that no valid discriminant was found and ends with
  the bracketed list \<open>Guard tried: [...]\<close>. The list holds type tags of the field's
  candidates, an initial segment of them in their sorted order, and nothing else; the
  message is the same whatever the name of the field is.
\<close>

theorem union_no_match_fails:
  assumes "\<forall>u \<in> set (sortedUnionTypes p). \<not> guard u v"
    and "\<not> isOptional p" and "\<not> isNullable p" and "\<not> hasManualDefaultValue p"
  shows "\<exists>discriminants rest.
           map (\<lambda>u. type (property u)) (sortedUnionTypes p) = discriminants @ rest
           \<and> toClass_union conv p v = Inl (Error (guard_tried_message discriminants))
           \<and> fromClass_union conv' p v = Inl (Error (guard_tried_message discriminants))
           \<and> (\<forall>n. toClass_union conv (rename n p) v
                      = Inl (Error (guard_tried_message discriminants))
                  \<and> fromClass_union conv' (rename n p) v
                      = Inl (Error (guard_tried_message discriminants)))"
proof -
  have r: "sortedUnionTypes (rename n p) = sortedUnionTypes p
           \<and> isOptional (rename n p) = isOptional p
           \<and> isNullable (rename n p) = isNullable p
           \<and> hasManualDefaultValue (rename n p) = hasManualDefaultValue p" for n
    by (cases p) simp
  have e: "toClass_union c p v = Inl (Error (guard_tried_message []))
           \<and> fromClass_union c p v = Inl (Error (guard_tried_message []))" for c
    using assms
    by (simp add: toClass_union_run fromClass_union_run run_discriminator_no_match
        union_elseBranch_def)
  have f: "toClass_union c (rename n p) v = Inl (Error (guard_tried_message []))
           \<and> fromClass_union c (rename n p) v = Inl (Error (guard_tried_message []))" for c n
    using assms r [of n]
    by (simp add: toClass_union_run fromClass_union_run run_discriminator_no_match
        union_elseBranch_def)
  have s: "map (\<lambda>u. type (property u)) (sortedUnionTypes p)
             = [] @ map (\<lambda>u. type (property u)) (sortedUnionTypes p)"
    by simp
  show ?thesis
    using e f s by blast
qed

theorem union_no_match_fails_witness:
  "\<forall>conv conv'. \<exists>discriminants rest.
     map (\<lambda>u. type (property u)) (sortedUnionTypes ab_union) = discriminants @ rest
     \<and> toClass_union conv ab_union (JNum 7) = Inl (Error (guard_tried_message discriminants))
     \<and> fromClass_union conv' ab_union (JNum 7) = Inl (Error (guard_tried_message discriminants))
     \<and> (\<forall>n. toClass_union conv (rename n ab_union) (JNum 7)
                = Inl (Error (guard_tried_message discriminants))
            \<and> fromClass_union conv' (rename n ab_union) (JNum 7)
                = Inl (Error (guard_tried_message discriminants)))"
proof (intro allI)
  fix conv conv' :: "property \<Rightarrow> jsval \<Rightarrow> outcome"
  have h1: "\<forall>u \<in> set (sortedUnionTypes ab_union). \<not> guard u (JNum 7)"
    by (simp add: example_defs)
  have h2: "\<not> isOptional ab_union" "\<not> isNullable ab_union" "\<not> hasManualDefaultValue ab_union"
    by (simp_all add: example_defs)
  show "\<exists>discriminants rest.
     map (\<lambda>u. type (property u)) (sortedUnionTypes ab_union) = discriminants @ rest
     \<and> toClass_union conv ab_union (JNum 7) = Inl (Error (guard_tried_message discriminants))
     \<and> fromClass_union conv' ab_union (JNum 7) = Inl (Error (guard_tried_message discriminants))
     \<and> (\<forall>n. toClass_union conv (rename n ab_union) (JNum 7)
                = Inl (Error (guard_tried_message discriminants))
            \<and> fromClass_union conv' (rename n ab_union) (JNum 7)
                = Inl (Error (guard_tried_message discriminants)))"
    using union_no_match_fails [OF h1 h2, of conv conv'] .
qed

text \<open>
  The claim as the spec states it fails on the spec's own example. The union field
  \<open>kind\<close> has the literal candidates \<open>a\<close> and \<open>b\<close>; decoding \<open>"z"\<close> throws an error whose
  message names neither the field nor the candidates: its list of guards is empty,
  although the loop collects the candidates' type tags.
\<close>

theorem union_error_names_nothing:
  "toClass_union toClass_literal ab_union (JStr ''z'') =
     Inl (Error ''No valid discriminant was found, so could not determine class type. Guard tried: [].'')
   \<and> snd (union_loop (sortedUnionTypes ab_union) ([], [])) = [''literal'', ''literal'']
   \<and> name ab_union = ''kind''
   \<and> \<not> occurs_in ''kind''
        ''No valid discriminant was found, so could not determine class type. Guard tried: [].''
   \<and> \<not> occurs_in ''a,b''
        ''No valid discriminant was found, so could not determine class type. Guard tried: [].''"
  by (simp add: toClass_union_def union_elseBranch_def guard_tried_message_def example_defs)

section \<open>Claims about the class compiler\<close>

text \<open>
  C4, as the code has it: what the decoder of a nested-schema field does with a string.
  When the nested schema has a decorator, the string goes to the nested converter as it
  is: the result is assigned and an exception of the converter reaches the caller.
  Otherwise a reference is left unset, without parsing. Otherwise the string is parsed
  as JSON and the parsed value is handed to the nested converter; when parsing fails, or
  the nested converter throws, the exception is swallowed: the field is left unset and
  no error reaches the caller.
\<close>

theorem class_string_parse_failure_swallowed:
  "toClass_class parse nested p (JStr s) =
     (if truthy_decorator (foreignSchema p) then
        (case nested (JStr s) of Inl e \<Rightarrow> Inl e | Inr w \<Rightarrow> Inr (Some w))
      else if isReference p then Inr None
      else (case parse s of
              Inl e \<Rightarrow> Inr None
            | Inr obj \<Rightarrow> (case nested obj of Inl e \<Rightarrow> Inr None | Inr w \<Rightarrow> Inr (Some w))))"
  by (simp add: toClass_class_def try_assign_def assign_result_def split: sum.splits)

theorem class_string_parse_failure_swallowed_witness:
  "\<forall>nested. toClass_class (\<lambda>s. Inl SyntaxError) nested cand_shape (JStr ''{'') = Inr None"
proof
  fix nested :: "jsval \<Rightarrow> error + jsval"
  show "toClass_class (\<lambda>s. Inl SyntaxError) nested cand_shape (JStr ''{'') = Inr None"
    using class_string_parse_failure_swallowed
      [of "\<lambda>s. Inl SyntaxError" nested cand_shape "''{''"]
    by (simp add: truthy_decorator_def example_defs)
qed

text \<open>
  The claim as the spec states it, for every field of a nested schema, fails in two
  ways. A reference never parses its string: with a parser that reads \<open>{}\<close> as the empty
  object and a nested converter that returns its input, the field \<open>kind\<close> is set to the
  empty object, and the same field as a reference is left unset. And for a schema with
  a decorator (\<open>Tags\<close>, decorated property \<open>items\<close>) nothing is parsed or swallowed: the
  string that does not parse is handed to the nested converter and its result is
  assigned, for a reference too, and an exception of the converter is not caught.
\<close>

theorem class_reference_string_not_parsed:
  "toClass_class (\<lambda>s. Inr (JObj [])) (\<lambda>w. Inr w) cand_shape (JStr ''{}'') = Inr (Some (JObj []))
   \<and> toClass_class (\<lambda>s. Inr (JObj [])) (\<lambda>w. Inr w) (reference cand_shape) (JStr ''{}'') = Inr None
   \<and> toClass_class (\<lambda>s. Inl SyntaxError) (\<lambda>w. Inr w) tags_field (JStr ''{'')
       = Inr (Some (JStr ''{''))
   \<and> toClass_class (\<lambda>s. Inl SyntaxError) (\<lambda>w. Inr w) (reference tags_field) (JStr ''{'')
       = Inr (Some (JStr ''{''))
   \<and> toClass_class (\<lambda>s. Inl SyntaxError) (\<lambda>w. Inl (Error ''nested'')) tags_field (JStr ''{'')
       = Inl (Error ''nested'')"
  by (simp add: toClass_class_def try_assign_def assign_result_def truthy_decorator_def
      example_defs)

section \<open>The decoding pipeline and the validator\<close>

text \<open>
  Modelled from the spec: \<^verbatim>\<open>getDataConverterJS\<close> (\<^verbatim>\<open>serializer-compiler.ts\<close>) and
  \<^verbatim>\<open>getXToClassFunction\<close> (\<^verbatim>\<open>jit.ts\<close>), which are not among the sources. The pipeline
  of a schema walks the fields in order, builds a new entity and populates its fields
  (section 4.3, steps 3 and 4). For an absent or null source value the default handling
  takes precedence over the type step (step 3d): an absent value gives the configured
  default or leaves the field unset, as the comment of \<^verbatim>\<open>plainToClass\<close> says (missing
  data is replaced by the default value of the property or undefined); null passes
  through for a nullable field. Before leaving the field unset the generators that
  \<^verbatim>\<open>json-serializer.ts\<close> prepends for \<^verbatim>\<open>undefined\<close> and \<^verbatim>\<open>null\<close> run. Any other value goes
  to the generator registered for the field's type; a field that references a nested
  schema invokes the pipeline of that schema (step 3b), a union field its candidates
  (step 3a). The type tags \<^verbatim>\<open>date\<close>, \<^verbatim>\<open>moment\<close>, \<^verbatim>\<open>arrayBuffer\<close>, \<^verbatim>\<open>partial\<close> and the binary
  types are not modelled, nor are array and map fields; a field of a type without a
  generator here gets no step. The enum generator reads the cache of enum values as it
  is when the pipeline starts: it pushes onto a cached array only when it throws, which
  ends the run.
\<close>

fun get_property :: "jsval \<Rightarrow> string \<Rightarrow> jsval" where
  "get_property (JObj kvs) k = (case map_of kvs k of None \<Rightarrow> JUndefined | Some w \<Rightarrow> w)"
| "get_property v k = JUndefined"

fun populate ::
  "(property \<Rightarrow> jsval \<Rightarrow> outcome) \<Rightarrow> property list \<Rightarrow> jsval \<Rightarrow> error + (string \<times> jsval) list" where
  "populate conv [] data = Inr []"
| "populate conv (p # ps) data =
     (case conv p (get_property data (name p)) of
        Inl e \<Rightarrow> Inl e
      | Inr r \<Rightarrow>
          (case populate conv ps data of
             Inl e \<Rightarrow> Inl e
           | Inr kvs \<Rightarrow> Inr ((case r of None \<Rightarrow> [] | Some w \<Rightarrow> [(name p, w)]) @ kvs)))"

text \<open>Reading a field of \<^verbatim>\<open>undefined\<close> or \<^verbatim>\<open>null\<close> throws a \<^verbatim>\<open>TypeError\<close>.\<close>

definition xToClass ::
  "(property \<Rightarrow> jsval \<Rightarrow> outcome) \<Rightarrow> classSchema \<Rightarrow> jsval \<Rightarrow> error + jsval" where
  "xToClass conv cs data =
     (if data = JUndefined \<or> data = JNull then Inl TypeError
      else (case populate conv (properties cs) data of
              Inl e \<Rightarrow> Inl e
            | Inr kvs \<Rightarrow> Inr (JObj kvs)))"

text \<open>The generators that \<^verbatim>\<open>json-serializer.ts\<close> registers with \<^verbatim>\<open>jsonSerializer.toClass\<close>.\<close>

definition toClass_registry ::
  "enum_cache \<Rightarrow> js_runtime \<Rightarrow> (property \<Rightarrow> jsval \<Rightarrow> outcome) \<Rightarrow> property \<Rightarrow> jsval \<Rightarrow> outcome" where
  "toClass_registry c rt conv p v =
     (if type p = ''string'' then compilerToString rt p v
      else if type p = ''number'' then compilerToNumber rt p v
      else if type p = ''literal'' then toClass_literal p v
      else if type p = ''boolean'' then toClass_boolean p v
      else if type p = ''enum'' then fst (toClass_enum rt p v c)
      else if type p = ''class'' then
        toClass_class (JSON_parse rt) (xToClass conv (foreignSchema p)) p v
      else if type p = ''union'' then toClass_union conv p v
      else Inr None)"

lemma populate_cong:
  "(\<And>q w. q \<in> set ps \<Longrightarrow> conv q w = conv' q w) \<Longrightarrow>
   populate conv ps data = populate conv' ps data"
  by (induction ps) (auto split: sum.splits)

lemma xToClass_cong:
  "(\<And>q w. q \<in> set (properties cs) \<Longrightarrow> conv q w = conv' q w) \<Longrightarrow>
   xToClass conv cs data = xToClass conv' cs data"
  using populate_cong [of "properties cs" conv conv' data] by (simp add: xToClass_def)

lemma run_discriminator_cong:
  "(\<And>u. u \<in> set us \<Longrightarrow> conv (property u) v = conv' (property u) v) \<Longrightarrow>
   run_discriminator conv us e v = run_discriminator conv' us e v"
  by (induction us) auto

lemma toClass_class_cong:
  "(\<And>w. xf w = xf' w) \<Longrightarrow> toClass_class parse xf p v = toClass_class parse xf' p v"
  by (simp add: toClass_class_def split: jsval.splits sum.splits)

lemma toClass_registry_cong [fundef_cong]:
  assumes "p = p'" and "v = v'"
    and "\<And>u. u \<in> set (sortedUnionTypes p') \<Longrightarrow> conv (property u) v' = conv' (property u) v'"
    and "\<And>q w. q \<in> set (properties (foreignSchema p')) \<Longrightarrow> conv q w = conv' q w"
  shows "toClass_registry c rt conv p v = toClass_registry c rt conv' p' v'"
proof -
  have u: "toClass_union conv p' v' = toClass_union conv' p' v'"
    unfolding toClass_union_run using assms(3) by (rule run_discriminator_cong)
  have x: "xToClass conv (foreignSchema p') w = xToClass conv' (foreignSchema p') w" for w
    using assms(4) by (rule xToClass_cong)
  have k: "toClass_class (JSON_parse rt) (xToClass conv (foreignSchema p')) p' v'
         = toClass_class (JSON_parse rt) (xToClass conv' (foreignSchema p')) p' v'"
    using x by (rule toClass_class_cong)
  show ?thesis
    using assms(1,2) u k by (simp add: toClass_registry_def)
qed

function getDataConverterJS ::
    "enum_cache \<Rightarrow> js_runtime \<Rightarrow> property \<Rightarrow> jsval \<Rightarrow> outcome"
where
  "getDataConverterJS c rt p v =
     (if v = JUndefined then
        (if hasManualDefaultValue p then Inr (Some (defaultValue p))
         else toClass_prepend_undefined p v)
      else if v = JNull then
        (if isNullable p then Inr (Some JNull) else toClass_prepend_null p v)
      else toClass_registry c rt (getDataConverterJS c rt) p v)"
  by pat_completeness auto

lemma size_property_of_union: "size (property u) < size u"
  by (cases u) simp

lemma size_member_list: "x \<in> set xs \<Longrightarrow> size x \<le> size_list size xs"
  by (induction xs) auto

lemma size_union_member: "u \<in> set (sortedUnionTypes p) \<Longrightarrow> size (property u) < size p"
  using size_property_of_union [of u] size_member_list [of u "sortedUnionTypes p"]
  by (cases p) simp

lemma size_schema_member: "q \<in> set (properties cs) \<Longrightarrow> size q < size cs"
  using size_member_list [of q "properties cs"]
  by (cases cs) simp

lemma size_foreign_member:
  "q \<in> set (properties (foreignSchema p)) \<Longrightarrow> size q < size p"
  using size_schema_member [of q "foreignSchema p"]
  by (cases p) simp

termination getDataConverterJS
  by (relation "measure (\<lambda>(c, rt, p, v). size p)")
    (simp_all add: size_union_member size_foreign_member)

definition getXToClassFunction ::
  "enum_cache \<Rightarrow> js_runtime \<Rightarrow> classSchema \<Rightarrow> jsval \<Rightarrow> error + jsval" where
  "getXToClassFunction c rt cs data = xToClass (getDataConverterJS c rt) cs data"

text \<open>
  Modelled from the spec: \<^verbatim>\<open>validate\<close> (\<^verbatim>\<open>validation.ts\<close>), which is not among the sources.
  By section 4.5 every field is checked, in declaration order, and all errors are
  collected in one list. The chain of a field is the required-ness check, which fails
  when the value is absent and the field is not optional and has no default, and then
  the type-shape check; the first failing rule ends the chain of its field. The shape
  check is given for the primitive type tags \<^verbatim>\<open>string\<close>, \<^verbatim>\<open>number\<close> and \<^verbatim>\<open>boolean\<close>; custom
  validator rules are not modelled. The spec leaves the codes and messages of the
  errors open: the codes here are \<^verbatim>\<open>required\<close> and \<^verbatim>\<open>invalid_type\<close>. As in the pipeline,
  reading a field of \<^verbatim>\<open>undefined\<close> or \<^verbatim>\<open>null\<close> throws a \<^verbatim>\<open>TypeError\<close>.
\<close>

definition validate_property :: "property \<Rightarrow> jsval \<Rightarrow> field_error list" where
  "validate_property p v =
     (if v = JUndefined then
        (if \<not> isOptional p \<and> \<not> hasManualDefaultValue p
         then [FieldError (name p) ''required'' ''Required value is undefined'']
         else [])
      else if v = JNull \<and> isNullable p then []
      else if (type p = ''string'' \<or> type p = ''number'' \<or> type p = ''boolean'')
              \<and> typeof v \<noteq> type p
        then [FieldError (name p) ''invalid_type'' ''Invalid type'']
      else [])"

definition validate :: "classSchema \<Rightarrow> jsval \<Rightarrow> error + field_error list" where
  "validate cs data =
     (if data = JUndefined \<or> data = JNull then Inl TypeError
      else Inr (concat (map (\<lambda>p. validate_property p (get_property data (name p)))
                          (properties cs))))"

text \<open>
  The schema of the aggregate test:
  \<^verbatim>\<open>t.schema({id: t.number.primary.autoIncrement, category: t.string, title: t.string,
  price: t.number, rating: t.number.default(0)}, {name: 'Product'})\<close>.
\<close>

definition product :: classSchema where
  "product =
     ClassSchema ''Product'' None
       [autoIncrement (primary (t_number ''id'')),
        t_string ''category'',
        t_string ''title'',
        t_number ''price'',
        with_default (JNum 0) (t_number ''rating'')]"

definition car :: jsval where
  "car = JObj [(''category'', JStr ''toys''), (''title'', JStr ''Car''), (''price'', JNum 499)]"

definition car7 :: jsval where
  "car7 =
     JObj [(''id'', JNum 7), (''category'', JStr ''toys''), (''title'', JStr ''Car''),
           (''price'', JNum 499)]"

text \<open>
  C6: decoding with absent input fields succeeds and applies the default handling.
  For the Product schema, decoding \<open>{category: "toys", title: "Car", price: 499}\<close>, with
  \<open>id\<close> and \<open>rating\<close> absent, yields an entity whose \<open>rating\<close> is 0 and whose \<open>id\<close> is
  left unset.
\<close>

theorem product_decode_defaults:
  "plainToClass (getXToClassFunction h rt) product car =
     Inr (JObj [(''category'', JStr ''toys''), (''title'', JStr ''Car''), (''price'', JNum 499),
                (''rating'', JNum 0)])
   \<and> (\<exists>entity. plainToClass (getXToClassFunction h rt) product car = Inr entity
         \<and> get_property entity ''rating'' = JNum 0
         \<and> get_property entity ''id'' = JUndefined
         \<and> get_property entity ''price'' = JNum 499)"
  by (simp add: plainToClass_def getXToClassFunction_def xToClass_def product_def car_def
      toClass_registry_def compilerToString_def compilerToNumber_def
      toClass_prepend_undefined_def t_number_def t_string_def t_property_def)

section \<open>Claims about validation and enums\<close>

lemma validate_returns_or_TypeError:
  "validate cs data = Inl TypeError \<or> (\<exists>errs. validate cs data = Inr errs)"
  by (simp add: validate_def)

lemma validate_never_raises_ValidationFailed:
  "validate cs data \<noteq> Inl (ValidationFailed errs)"
  by (simp add: validate_def)

lemma product_validate_car:
  "validate product car = Inr [FieldError ''id'' ''required'' ''Required value is undefined'']"
  by (simp add: validate_def validate_property_def product_def car_def
      t_number_def t_string_def t_property_def)

lemma product_validate_car7:
  "validate product car7 = Inr []"
  by (simp add: validate_def validate_property_def product_def car7_def
      t_number_def t_string_def t_property_def)

lemma product_decode_car7:
  "getXToClassFunction c rt product car7 =
     Inr (JObj [(''id'', JNum 7), (''category'', JStr ''toys''), (''title'', JStr ''Car''),
                (''price'', JNum 499), (''rating'', JNum 0)])"
  by (simp add: getXToClassFunction_def xToClass_def product_def car7_def
      toClass_registry_def compilerToString_def compilerToNumber_def
      toClass_prepend_undefined_def t_number_def t_string_def t_property_def)

lemma product_decode_car:
  "getXToClassFunction c rt product car =
     Inr (JObj [(''category'', JStr ''toys''), (''title'', JStr ''Car''), (''price'', JNum 499),
                (''rating'', JNum 0)])"
  by (simp add: getXToClassFunction_def xToClass_def product_def car_def
      toClass_registry_def compilerToString_def compilerToNumber_def
      toClass_prepend_undefined_def t_number_def t_string_def t_property_def)

text \<open>
  C5: the throwing entry point \<open>validatedPlainToClass\<close> raises \<open>ValidationFailed\<close> if and
  only if \<open>validate\<close> returns a non-empty list for the data, and the error then carries
  the full list; when \<open>validate\<close> returns the empty list, the entry point returns what
  the decoder returns for the data, the decoded entity. \<open>validate\<close> and the decoder are
  the functions of the absent \<^verbatim>\<open>validation.ts\<close> and \<^verbatim>\<open>jit.ts\<close>: that neither of them
  raises \<open>ValidationFailed\<close> itself is what is assumed of them here, and holds of the
  validator above, which throws nothing but a \<^verbatim>\<open>TypeError\<close>. An exception of
  \<open>validate\<close> reaches the caller unchanged.
\<close>

theorem validatedPlainToClass_raises_iff:
  assumes "\<forall>errs. val cs data \<noteq> Inl (ValidationFailed errs)"
    and "\<forall>errs. getX cs data \<noteq> Inl (ValidationFailed errs)"
  shows "((\<exists>errs. validatedPlainToClass val getX cs data = Inl (ValidationFailed errs))
            = (\<exists>errs. val cs data = Inr errs \<and> errs \<noteq> []))
         \<and> (\<forall>errs. val cs data = Inr errs \<and> errs \<noteq> [] \<longrightarrow>
              validatedPlainToClass val getX cs data = Inl (ValidationFailed errs))
         \<and> (val cs data = Inr [] \<longrightarrow> validatedPlainToClass val getX cs data = getX cs data)
         \<and> (\<forall>e. val cs data = Inl e \<longrightarrow> validatedPlainToClass val getX cs data = Inl e)"
proof (cases "val cs data")
  case (Inl e)
  with assms(1) show ?thesis
    by (auto simp add: validatedPlainToClass_def)
next
  case (Inr errs)
  with assms(2) show ?thesis
    by (auto simp add: validatedPlainToClass_def plainToClass_def)
qed

text \<open>
  For the Product schema the validator above and the decoding pipeline give: the data
  without \<open>id\<close> is refused with the one error of the required \<open>id\<close>, and the data with
  \<open>id\<close> 7 is decoded, the default of \<open>rating\<close> filled in.
\<close>

theorem validatedPlainToClass_raises_iff_witness:
  "\<forall>c rt.
     validatedPlainToClass validate (getXToClassFunction c rt) product car
       = Inl (ValidationFailed [FieldError ''id'' ''required'' ''Required value is undefined''])
   \<and> validatedPlainToClass validate (getXToClassFunction c rt) product car7
       = Inr (JObj [(''id'', JNum 7), (''category'', JStr ''toys''), (''title'', JStr ''Car''),
                    (''price'', JNum 499), (''rating'', JNum 0)])"
proof (intro allI)
  fix c :: enum_cache and rt :: js_runtime
  have v: "\<forall>errs. validate product d \<noteq> Inl (ValidationFailed errs)" for d
    by (simp add: validate_never_raises_ValidationFailed)
  have d1: "\<forall>errs. getXToClassFunction c rt product car \<noteq> Inl (ValidationFailed errs)"
    by (simp add: product_decode_car)
  have d2: "\<forall>errs. getXToClassFunction c rt product car7 \<noteq> Inl (ValidationFailed errs)"
    by (simp add: product_decode_car7)
  note r1 = validatedPlainToClass_raises_iff
    [where val = validate and getX = "getXToClassFunction c rt" and cs = product
       and data = car, OF v d1]
  note r2 = validatedPlainToClass_raises_iff
    [where val = validate and getX = "getXToClassFunction c rt" and cs = product
       and data = car7, OF v d2]
  show "validatedPlainToClass validate (getXToClassFunction c rt) product car
       = Inl (ValidationFailed [FieldError ''id'' ''required'' ''Required value is undefined''])
   \<and> validatedPlainToClass validate (getXToClassFunction c rt) product car7
       = Inr (JObj [(''id'', JNum 7), (''category'', JStr ''toys''), (''title'', JStr ''Car''),
                    (''price'', JNum 499), (''rating'', JNum 0)])"
    using r1 r2 by (simp add: product_validate_car product_validate_car7 product_decode_car7)
qed

definition color :: enum_definition where
  "color = [(''Red'', JStr ''r''), (''Green'', JStr ''g'')]"

definition color_enum :: "bool \<Rightarrow> property" where
  "color_enum allowLabels = t_enum ''color'' color allowLabels"

lemmas enum_defs =
  toClass_enum_def isValidEnumValue_def getValidEnumValue_def getEnumValues_def
  getEnumLabels_def push_labels_def invalid_enum_message_def array_join_def
  color_enum_def color_def t_enum_def

text \<open>
  As long as the cache holds nothing for the enum of a field, or its declared values,
  the enum compiler does what the spec says of an invalid enum value: a defined value outside the values, and outside
  the labels when labels are allowed, raises an error that names the property, shows
  the value and lists the values, followed by the labels when labels are allowed.
\<close>

lemma enum_invalid_value_raises_on_clean_cache:
  assumes "c (enumDefinition p) = None \<or> c (enumDefinition p) = Some (map snd (enumDefinition p))"
    and "v \<noteq> JUndefined"
    and "v \<notin> set (map snd (enumDefinition p))"
    and "allowLabelsAsValue p \<longrightarrow> v \<notin> set (map JStr (map fst (enumDefinition p)))"
  shows "fst (toClass_enum rt p v c) =
           Inl (Error (''Invalid ENUM given in property '' @ name p @ '': '' @ ToString rt v
             @ '', valid: ''
             @ array_join rt '',''
                 (map snd (enumDefinition p)
                  @ (if allowLabelsAsValue p
                     then map JStr (map fst (enumDefinition p)) else []))))"
  using assms
  by (auto simp add: toClass_enum_def isValidEnumValue_def getEnumValues_def getEnumLabels_def
      push_labels_def invalid_enum_message_def Let_def split: option.splits)

text \<open>
  C7 on the code: the enum \<open>Color\<close> has the labels \<open>Red\<close>, \<open>Green\<close> with the values \<open>r\<close>, \<open>g\<close>.
  On a fresh cache the value \<open>Red\<close> is refused for a field that does not allow labels,
  and \<open>x\<close> is refused for a field that allows them, with the list \<open>r,g,Red,Green\<close>. That
  second error has pushed the labels onto the cached array of values. Afterwards the
  field that does not allow labels accepts \<open>Red\<close> without an error, and a second \<open>x\<close>
  lists the labels twice.
\<close>

theorem enum_labels_leak_into_values:
  "\<forall>rt.
     fst (toClass_enum rt (color_enum False) (JStr ''Red'') Map.empty)
       = Inl (Error ''Invalid ENUM given in property color: Red, valid: r,g'')
   \<and> fst (toClass_enum rt (color_enum True) (JStr ''x'') Map.empty)
       = Inl (Error ''Invalid ENUM given in property color: x, valid: r,g,Red,Green'')
   \<and> fst (toClass_enum rt (color_enum False) (JStr ''Red'')
            (snd (toClass_enum rt (color_enum True) (JStr ''x'') Map.empty)))
       = Inr (Some (JStr ''Red''))
   \<and> fst (toClass_enum rt (color_enum True) (JStr ''x'')
            (snd (toClass_enum rt (color_enum True) (JStr ''x'') Map.empty)))
       = Inl (Error ''Invalid ENUM given in property color: x, valid: r,g,Red,Green,Red,Green'')"
  by (simp add: enum_defs Let_def)

section \<open>Round trips of the generators\<close>

text \<open>
  What the sources say about converting back and forth. The number generator is
  registered for both directions and keeps a number as it is. The class generators
  invert each other when the converters of the nested schema do. The decoders accept
  more than one spelling of a value: the number 1 and the boolean \<open>true\<close> decode to the
  same boolean, so that no encoder gives both of them back.
\<close>

lemma compilerToNumber_round_trip:
  assumes "typeof v = ''number''"
  shows "compilerToNumber rt p v = Inr (Some v)"
  using assms by (simp add: compilerToNumber_def)

lemma class_round_trip:
  assumes "\<not> truthy_decorator (foreignSchema p)"
    and "encode v = Inr (JObj kvs)" and "decode (JObj kvs) = Inr v"
  shows "fromClass_class encode p v = Inr (Some (JObj kvs))
         \<and> toClass_class parse decode p (JObj kvs) = Inr (Some v)"
  using assms by (simp add: fromClass_class_def toClass_class_def assign_result_def)

lemma cloneClass_round_trip:
  assumes "serialize target = Inr plain" and "deserialize plain = Inr target"
  shows "cloneClass serialize deserialize target = Inr target"
  using assms by (simp add: cloneClass_def)

lemma toClass_boolean_spellings:
  "toClass_boolean p (JNum 1) = Inr (Some (JBool True))
   \<and> toClass_boolean p (JStr ''true'') = Inr (Some (JBool True))
   \<and> toClass_boolean p (JBool True) = Inr (Some (JBool True))"
  by (simp add: toClass_boolean_def)

end
